theory Spec2Isabelle
  imports Complex_Main
begin

section \<open>Values, exceptions and outcomes\<close>

text \<open>
  Messages are JSON objects decoded by \<^verbatim>\<open>receive_json\<close>; \<open>jval\<close> is the decoded value.
  Python's \<^verbatim>\<open>None\<close> is \<open>JNull\<close>. An inbound message is the dict \<^verbatim>\<open>data\<close>, read only
  through \<^verbatim>\<open>data.get\<close>, so it is a partial map from keys to values. Outbound envelopes
  are the dicts handed to \<^verbatim>\<open>json.dumps\<close>, kept as \<open>JObj\<close> association lists in the
  order the source writes their keys.
\<close>

datatype jval =
    JNull
  | JBool bool
  | JInt int
  | JFloat real
  | JStr string
  | JList "jval list"
  | JObj "(string \<times> jval) list"

type_synonym msg = "string \<rightharpoonup> jval"
type_synonym uid = string
type_synonym wsid = nat
type_synonym cid = nat
type_synonym aid = nat

text \<open>Python truthiness, as used by \<^verbatim>\<open>if not msg_type\<close>, \<^verbatim>\<open>if not prompt\<close>, \<^verbatim>\<open>if chunk\<close>.\<close>

fun truthy :: "jval \<Rightarrow> bool" where
  "truthy JNull = False"
| "truthy (JBool b) = b"
| "truthy (JInt i) = (i \<noteq> 0)"
| "truthy (JFloat r) = (r \<noteq> 0)"
| "truthy (JStr s) = (s \<noteq> [])"
| "truthy (JList xs) = (xs \<noteq> [])"
| "truthy (JObj kvs) = (kvs \<noteq> [])"

text \<open>
  Exceptions are values. Only subclasses of \<^verbatim>\<open>Exception\<close> are modelled (what
  \<^verbatim>\<open>except Exception\<close> catches); the class decides which \<^verbatim>\<open>except\<close> clause of the
  receive loop applies, the string is \<^verbatim>\<open>str(e)\<close>.
\<close>

datatype exn_class =
  WebSocketDisconnect | JSONDecodeError | ValueError | KeyError | TypeError | OtherException

datatype exn = Exn (exn_class: exn_class) (exn_msg: string)

text \<open>
  A call either returns a value or raises. State changes made before a raise persist, so
  every stateful operation returns its outcome together with the state it leaves.
\<close>

datatype 'a outcome = Return 'a | Raise exn

text \<open>
  \<^verbatim>\<open>len(v)\<close>: a string, a list and a dict have a length; \<^verbatim>\<open>None\<close>, a boolean and a number
  do not, and \<^verbatim>\<open>len\<close> raises \<^verbatim>\<open>TypeError\<close> on them. The keys of a decoded dict are distinct.
\<close>

definition no_len :: "string \<Rightarrow> nat outcome" where
  "no_len type_name =
     Raise (Exn TypeError
       (''object of type '' @ [CHR 0x27] @ type_name @ [CHR 0x27] @ '' has no len()''))"

fun py_len :: "jval \<Rightarrow> nat outcome" where
  "py_len JNull = no_len ''NoneType''"
| "py_len (JBool b) = no_len ''bool''"
| "py_len (JInt i) = no_len ''int''"
| "py_len (JFloat r) = no_len ''float''"
| "py_len (JStr t) = Return (length t)"
| "py_len (JList xs) = Return (length xs)"
| "py_len (JObj kvs) = Return (length (remdups (map fst kvs)))"

text \<open>\<^verbatim>\<open>data.get(key)\<close> and \<^verbatim>\<open>data.get(key, default)\<close>.\<close>

definition dict_get :: "msg \<Rightarrow> string \<Rightarrow> jval" where
  "dict_get data k = (case data k of None \<Rightarrow> JNull | Some v \<Rightarrow> v)"

definition dict_get_default :: "msg \<Rightarrow> string \<Rightarrow> jval \<Rightarrow> jval" where
  "dict_get_default data k d = (case data k of None \<Rightarrow> d | Some v \<Rightarrow> v)"


section \<open>Session state\<close>

text \<open>
  The fields of \<^verbatim>\<open>ServiceContext\<close> that the modelled code reads. Contexts are objects shared
  by reference between \<^verbatim>\<open>client_contexts\<close> and the adapter built from them, so they live
  in a store addressed by \<open>cid\<close>.
\<close>

record service_context =
  character_name :: jval
  human_name :: jval
  avatar :: jval
  conf_uid :: jval
  live2d_model_name :: jval

text \<open>
  An \<^verbatim>\<open>OrphiqAdapter\<close> object. \<open>a_context\<close> is \<^verbatim>\<open>self.context\<close>. The source passes the
  adapter a closure \<^verbatim>\<open>websocket_send\<close> that captures \<^verbatim>\<open>client_uid\<close>; \<open>a_client\<close> is that
  captured variable and \<open>websocket_send\<close> below is the closure's body.
\<close>

record orphiq_adapter =
  a_context :: cid
  a_client :: uid
  current_expression :: jval
  current_motion :: jval

text \<open>
  Modelled from the spec: \<^verbatim>\<open>ChatGroupManager\<close> and its groups (module \<^verbatim>\<open>chat_group\<close> is not
  among the sources). A group has an id, an owner and its member ids; membership is
  tracked by the reverse map \<open>client_group_map\<close>, the empty string meaning no group.
\<close>

record chat_group =
  group_id :: string
  owner_uid :: uid
  members :: "uid list"

datatype task = Running | Done | Cancelled

text \<open>
  The \<^verbatim>\<open>WebSocketHandler\<close> object, the object stores it points into, and the transports.
  \<^item> \<open>adapters\<close> is the store of adapter objects; \<open>next_aid\<close> is the next free reference, so
    an adapter was constructed before a given moment iff its reference is below the
    \<open>next_aid\<close> of that moment.
  \<^item> \<open>ws_sent w\<close> is the sequence of payloads \<^verbatim>\<open>send_text\<close> has delivered on transport \<open>w\<close>;
    \<open>ws_fail w\<close> is the exception \<^verbatim>\<open>send_text\<close> raises on \<open>w\<close>, if it raises.
  \<^item> \<open>heard\<close> is the conversation memory of a context as far as interrupts record it.
\<close>

record hstate =
  client_connections :: "uid \<rightharpoonup> wsid"
  client_contexts :: "uid \<rightharpoonup> cid"
  received_data_buffers :: "uid \<rightharpoonup> real list"
  client_adapters :: "uid \<rightharpoonup> aid"
  backend_modes :: "uid \<rightharpoonup> jval"
  current_conversation_tasks :: "uid \<rightharpoonup> task option"
  client_group_map :: "uid \<rightharpoonup> string"
  groups :: "string \<rightharpoonup> chat_group"
  contexts :: "cid \<Rightarrow> service_context"
  heard :: "cid \<Rightarrow> jval list"
  adapters :: "aid \<Rightarrow> orphiq_adapter"
  next_aid :: aid
  ws_sent :: "wsid \<Rightarrow> jval list"
  ws_fail :: "wsid \<Rightarrow> exn option"

datatype agent_output = SentenceOutput string | AudioOutput string | UnknownOutput

datatype handler =
    H_group_operation | H_group_info | H_history_list_request | H_fetch_history
  | H_create_history | H_delete_history | H_interrupt | H_audio_data
  | H_conversation_trigger | H_raw_audio_data | H_fetch_configs | H_config_switch
  | H_fetch_backgrounds | H_audio_play_start | H_expression_command | H_motion_command
  | H_text_generation_request | H_set_backend_mode | H_get_backend_mode

text \<open>
  What the modelled code calls but the sources do not define: Python built-ins and
  modules outside \<^verbatim>\<open>src/\<close>. They are parameters, so every theorem holds for all of them.
  \<^item> \<open>py_str\<close>: \<^verbatim>\<open>str(v)\<close> as an f-string formats a value; \<open>py_repr\<close>: \<^verbatim>\<open>repr\<close> of a string key;
  \<^item> \<open>actions_to_dict\<close>: \<^verbatim>\<open>Actions(expressions=xs).to_dict()\<close>;
  \<^item> \<open>agent_chat\<close>: \<^verbatim>\<open>create_batch_input\<close> followed by \<^verbatim>\<open>agent_engine.chat\<close>: the outputs
    the lazy sequence yields, and the exception that ends it if one does;
  \<^item> \<open>detect_speech\<close>: \<^verbatim>\<open>vad_engine.detect_speech(chunk)\<close>, likewise;
  \<^item> \<open>message_handler\<close>: \<^verbatim>\<open>message_handler.handle_message\<close>, returning the exception it
    raises, if any;
  \<^item> \<open>other_handlers\<close>: the handler methods that no property below depends on.
\<close>

record env =
  py_str :: "jval \<Rightarrow> string"
  py_repr :: "string \<Rightarrow> string"
  actions_to_dict :: "jval list \<Rightarrow> jval outcome"
  agent_chat :: "service_context \<Rightarrow> jval \<Rightarrow> agent_output list \<times> exn option"
  detect_speech :: "service_context \<Rightarrow> jval \<Rightarrow> string list \<times> exn option"
  message_handler :: "uid \<Rightarrow> msg \<Rightarrow> exn option"
  other_handlers :: "handler \<Rightarrow> wsid \<Rightarrow> uid \<Rightarrow> msg \<Rightarrow> hstate \<Rightarrow> unit outcome \<times> hstate"

section \<open>Transport\<close>

text \<open>\<^verbatim>\<open>await websocket.send_text(json.dumps(payload))\<close>.\<close>

definition send_text :: "wsid \<Rightarrow> jval \<Rightarrow> hstate \<Rightarrow> unit outcome \<times> hstate" where
  "send_text w payload s =
     (case ws_fail s w of
        Some e \<Rightarrow> (Raise e, s)
      | None \<Rightarrow> (Return (), s\<lparr>ws_sent := (ws_sent s)(w := ws_sent s w @ [payload])\<rparr>))"

text \<open>
  The closure built in \<^verbatim>\<open>_get_adapter\<close>:
  \<^verbatim>\<open>websocket = self.client_connections.get(client_uid); if websocket: await websocket.send_text(msg)\<close>.
\<close>

definition websocket_send :: "uid \<Rightarrow> jval \<Rightarrow> hstate \<Rightarrow> unit outcome \<times> hstate" where
  "websocket_send client_uid payload s =
     (case client_connections s client_uid of
        None \<Rightarrow> (Return (), s)
      | Some w \<Rightarrow> send_text w payload s)"

definition error_envelope :: "string \<Rightarrow> jval" where
  "error_envelope m = JObj [(''type'', JStr ''error''), (''message'', JStr m)]"

section \<open>OrphiqAdapter\<close>

definition expression_payload :: "env \<Rightarrow> service_context \<Rightarrow> jval \<Rightarrow> jval \<Rightarrow> jval" where
  "expression_payload E c expression_id actions =
     JObj [(''type'', JStr ''audio''),
           (''audio'', JNull),
           (''volumes'', JList []),
           (''slice_length'', JInt 20),
           (''display_text'',
              JObj [(''text'', JStr (''Expression '' @ py_str E expression_id)),
                    (''name'', character_name c),
                    (''avatar'', avatar c)]),
           (''actions'', actions),
           (''forwarded'', JBool False)]"

text \<open>The body of the \<^verbatim>\<open>try\<close> block of \<^verbatim>\<open>trigger_expression\<close>.\<close>

definition trigger_expression_body ::
  "env \<Rightarrow> aid \<Rightarrow> jval \<Rightarrow> jval \<Rightarrow> jval \<Rightarrow> hstate \<Rightarrow> jval outcome \<times> hstate" where
  "trigger_expression_body E self expression_id duration priority s =
     (case actions_to_dict E [expression_id] of
        Raise e \<Rightarrow> (Raise e, s)
      | Return actions \<Rightarrow>
          (let a = adapters s self;
               payload = expression_payload E (contexts s (a_context a)) expression_id actions
           in case websocket_send (a_client a) payload s of
                (Raise e, s1) \<Rightarrow> (Raise e, s1)
              | (Return u, s1) \<Rightarrow>
                  (Return (JObj [(''status'', JStr ''success''),
                                 (''expression_id'', expression_id),
                                 (''duration'', duration),
                                 (''priority'', priority)]),
                   s1\<lparr>adapters := (adapters s1)
                        (self := (adapters s1 self)\<lparr>current_expression := expression_id\<rparr>)\<rparr>)))"

definition error_result :: "exn \<Rightarrow> jval" where
  "error_result e = JObj [(''status'', JStr ''error''), (''error'', JStr (exn_msg e))]"

text \<open>\<^verbatim>\<open>trigger_expression\<close>: the body under \<^verbatim>\<open>except Exception as e\<close>.\<close>

definition trigger_expression ::
  "env \<Rightarrow> aid \<Rightarrow> jval \<Rightarrow> jval \<Rightarrow> jval \<Rightarrow> hstate \<Rightarrow> jval outcome \<times> hstate" where
  "trigger_expression E self expression_id duration priority s =
     (case trigger_expression_body E self expression_id duration priority s of
        (Raise e, s1) \<Rightarrow> (Return (error_result e), s1)
      | (Return r, s1) \<Rightarrow> (Return r, s1))"

definition trigger_motion_body ::
  "aid \<Rightarrow> jval \<Rightarrow> jval \<Rightarrow> jval \<Rightarrow> jval \<Rightarrow> hstate \<Rightarrow> jval outcome \<times> hstate" where
  "trigger_motion_body self motion_group motion_index loop priority s =
     (let a = adapters s self;
          payload = JObj [(''type'', JStr ''motion-command''),
                          (''motion_group'', motion_group),
                          (''motion_index'', motion_index),
                          (''loop'', loop),
                          (''priority'', priority)]
      in case websocket_send (a_client a) payload s of
           (Raise e, s1) \<Rightarrow> (Raise e, s1)
         | (Return u, s1) \<Rightarrow>
             (Return (JObj [(''status'', JStr ''success''),
                            (''motion_group'', motion_group),
                            (''motion_index'', motion_index),
                            (''loop'', loop),
                            (''priority'', priority)]),
              s1\<lparr>adapters := (adapters s1)
                   (self := (adapters s1 self)
                      \<lparr>current_motion := JObj [(''group'', motion_group),
                                               (''index'', motion_index),
                                               (''loop'', loop)]\<rparr>)\<rparr>))"

definition trigger_motion ::
  "aid \<Rightarrow> jval \<Rightarrow> jval \<Rightarrow> jval \<Rightarrow> jval \<Rightarrow> hstate \<Rightarrow> jval outcome \<times> hstate" where
  "trigger_motion self motion_group motion_index loop priority s =
     (case trigger_motion_body self motion_group motion_index loop priority s of
        (Raise e, s1) \<Rightarrow> (Return (error_result e), s1)
      | (Return r, s1) \<Rightarrow> (Return r, s1))"

text \<open>\<^verbatim>\<open>get_character_state\<close> reads the adapter and its context; it has no \<^verbatim>\<open>try\<close>.\<close>

definition get_character_state :: "aid \<Rightarrow> hstate \<Rightarrow> jval" where
  "get_character_state self s =
     (let a = adapters s self; c = contexts s (a_context a)
      in JObj [(''character_name'', character_name c),
               (''model_name'', live2d_model_name c),
               (''current_expression'', current_expression a),
               (''current_motion'', current_motion a),
               (''config_uid'', conf_uid c)])"

text \<open>
  \<^verbatim>\<open>generate_text\<close> is an asynchronous generator: it yields the text of every
  \<^verbatim>\<open>SentenceOutput\<close> and \<^verbatim>\<open>AudioOutput\<close> of the agent and skips any other output. Its
  \<^verbatim>\<open>except\<close> clause logs and re-raises. The result is the chunks yielded and the exception
  that ends the iteration, if one does. The \<^verbatim>\<open>context\<close> argument is not used.
\<close>

fun output_text :: "agent_output \<Rightarrow> string list" where
  "output_text (SentenceOutput t) = [t]"
| "output_text (AudioOutput t) = [t]"
| "output_text UnknownOutput = []"

definition generate_text ::
  "env \<Rightarrow> aid \<Rightarrow> jval \<Rightarrow> jval \<Rightarrow> hstate \<Rightarrow> string list \<times> exn option" where
  "generate_text E self prompt context s =
     (case agent_chat E (contexts s (a_context (adapters s self))) prompt of
        (outputs, failure) \<Rightarrow> (concat (map output_text outputs), failure))"

section \<open>WebSocketHandler: adapter handlers\<close>

text \<open>
  Each handler runs to completion as one step: the interleaving of two handlers at an
  \<^verbatim>\<open>await\<close> is not modelled.
\<close>

definition new_adapter :: "cid \<Rightarrow> uid \<Rightarrow> orphiq_adapter" where
  "new_adapter c client_uid =
     \<lparr>a_context = c, a_client = client_uid, current_expression = JNull, current_motion = JNull\<rparr>"

definition not_implemented_message :: "env \<Rightarrow> jval \<Rightarrow> string" where
  "not_implemented_message E mode =
     ''Backend mode '' @ [CHR 0x27] @ py_str E mode @ [CHR 0x27] @ '' not yet implemented''"

text \<open>\<^verbatim>\<open>_get_adapter\<close>: get or create the adapter of a client.\<close>

definition get_adapter :: "env \<Rightarrow> uid \<Rightarrow> hstate \<Rightarrow> aid outcome \<times> hstate" where
  "get_adapter E client_uid s =
     (case client_adapters s client_uid of
        Some r \<Rightarrow> (Return r, s)
      | None \<Rightarrow>
          (case client_contexts s client_uid of
             None \<Rightarrow> (Raise (Exn ValueError (''No context found for client '' @ client_uid)), s)
           | Some c \<Rightarrow>
               (let mode = (case backend_modes s client_uid of
                              None \<Rightarrow> JStr ''orphiq'' | Some m \<Rightarrow> m)
                in if mode = JStr ''orphiq''
                   then (Return (next_aid s),
                         s\<lparr>client_adapters := (client_adapters s)(client_uid \<mapsto> next_aid s),
                           adapters := (adapters s)(next_aid s := new_adapter c client_uid),
                           next_aid := Suc (next_aid s)\<rparr>)
                   else (Raise (Exn ValueError (not_implemented_message E mode)), s))))"

text \<open>
  The clause every adapter handler ends with:
  \<^verbatim>\<open>except Exception as e: await websocket.send_text(json.dumps({"type": "error", "message": str(e)}))\<close>.
\<close>

definition except_send_error ::
  "wsid \<Rightarrow> unit outcome \<times> hstate \<Rightarrow> unit outcome \<times> hstate" where
  "except_send_error ws r =
     (case r of
        (Raise e, s1) \<Rightarrow> send_text ws (error_envelope (exn_msg e)) s1
      | (Return u, s1) \<Rightarrow> (Return u, s1))"

definition handle_expression_command ::
  "env \<Rightarrow> wsid \<Rightarrow> uid \<Rightarrow> msg \<Rightarrow> hstate \<Rightarrow> unit outcome \<times> hstate" where
  "handle_expression_command E ws client_uid data s =
     except_send_error ws
       (let expression_id = dict_get data ''expression_id''
        in if expression_id = JNull
           then send_text ws (error_envelope ''expression_id is required'') s
           else
             (let duration = dict_get_default data ''duration'' (JInt 0);
                  priority = dict_get_default data ''priority'' (JInt 0)
              in case get_adapter E client_uid s of
                   (Raise e, s1) \<Rightarrow> (Raise e, s1)
                 | (Return adapter, s1) \<Rightarrow>
                     (case trigger_expression E adapter expression_id duration priority s1 of
                        (Raise e, s2) \<Rightarrow> (Raise e, s2)
                      | (Return result, s2) \<Rightarrow>
                          send_text ws
                            (JObj [(''type'', JStr ''expression-ack''),
                                   (''expression_id'', expression_id),
                                   (''result'', result)]) s2)))"

definition handle_motion_command ::
  "env \<Rightarrow> wsid \<Rightarrow> uid \<Rightarrow> msg \<Rightarrow> hstate \<Rightarrow> unit outcome \<times> hstate" where
  "handle_motion_command E ws client_uid data s =
     except_send_error ws
       (let motion_group = dict_get data ''motion_group'';
            motion_index = dict_get data ''motion_index''
        in if motion_group = JNull \<or> motion_index = JNull
           then send_text ws (error_envelope ''motion_group and motion_index are required'') s
           else
             (let loop = dict_get_default data ''loop'' (JBool False);
                  priority = dict_get_default data ''priority'' (JInt 0)
              in case get_adapter E client_uid s of
                   (Raise e, s1) \<Rightarrow> (Raise e, s1)
                 | (Return adapter, s1) \<Rightarrow>
                     (case trigger_motion adapter motion_group motion_index loop priority s1 of
                        (Raise e, s2) \<Rightarrow> (Raise e, s2)
                      | (Return result, s2) \<Rightarrow>
                          send_text ws
                            (JObj [(''type'', JStr ''motion-ack''),
                                   (''motion_group'', motion_group),
                                   (''motion_index'', motion_index),
                                   (''result'', result)]) s2)))"

definition chunk_envelope :: "string \<Rightarrow> jval" where
  "chunk_envelope text_chunk =
     JObj [(''type'', JStr ''text-generation-chunk''),
           (''text'', JStr text_chunk),
           (''is_complete'', JBool False)]"

definition response_envelope :: "string \<Rightarrow> jval" where
  "response_envelope full_text =
     JObj [(''type'', JStr ''text-generation-response''),
           (''text'', JStr full_text),
           (''is_complete'', JBool True)]"

text \<open>
  The \<^verbatim>\<open>async for\<close> loop of \<^verbatim>\<open>_handle_text_generation_request\<close> over the chunks the
  generator yields: \<^verbatim>\<open>full_text += text_chunk\<close>, then the chunk envelope is sent.
\<close>

fun stream_chunks :: "wsid \<Rightarrow> string list \<Rightarrow> string \<Rightarrow> hstate \<Rightarrow> string outcome \<times> hstate" where
  "stream_chunks ws [] full_text s = (Return full_text, s)"
| "stream_chunks ws (text_chunk # rest) full_text s =
     (case send_text ws (chunk_envelope text_chunk) s of
        (Raise e, s1) \<Rightarrow> (Raise e, s1)
      | (Return u, s1) \<Rightarrow> stream_chunks ws rest (full_text @ text_chunk) s1)"

definition handle_text_generation_request ::
  "env \<Rightarrow> wsid \<Rightarrow> uid \<Rightarrow> msg \<Rightarrow> hstate \<Rightarrow> unit outcome \<times> hstate" where
  "handle_text_generation_request E ws client_uid data s =
     except_send_error ws
       (let prompt = dict_get_default data ''prompt'' (JStr [])
        in if \<not> truthy prompt
           then send_text ws (error_envelope ''prompt is required'') s
           else
             (let context = dict_get_default data ''context'' (JObj [])
              in case get_adapter E client_uid s of
                   (Raise e, s1) \<Rightarrow> (Raise e, s1)
                 | (Return adapter, s1) \<Rightarrow>
                     (case generate_text E adapter prompt context s1 of
                        (chunks, failure) \<Rightarrow>
                          (case stream_chunks ws chunks [] s1 of
                             (Raise e, s2) \<Rightarrow> (Raise e, s2)
                           | (Return full_text, s2) \<Rightarrow>
                               (case failure of
                                  Some e \<Rightarrow> (Raise e, s2)
                                | None \<Rightarrow> send_text ws (response_envelope full_text) s2)))))"

definition valid_modes :: "jval list" where
  "valid_modes = [JStr ''orphiq'', JStr ''external-api'', JStr ''autonomous'']"

definition invalid_mode_message :: "env \<Rightarrow> jval \<Rightarrow> string" where
  "invalid_mode_message E mode =
     ''Invalid backend mode: '' @ py_str E mode
       @ ''. Must be one of: orphiq, external-api, autonomous''"

definition handle_set_backend_mode ::
  "env \<Rightarrow> wsid \<Rightarrow> uid \<Rightarrow> msg \<Rightarrow> hstate \<Rightarrow> unit outcome \<times> hstate" where
  "handle_set_backend_mode E ws client_uid data s =
     except_send_error ws
       (let mode = dict_get_default data ''mode'' (JStr ''orphiq'')
        in if mode \<notin> set valid_modes
           then send_text ws (error_envelope (invalid_mode_message E mode)) s
           else
             (let s0 = s\<lparr>client_adapters := (client_adapters s)(client_uid := None),
                         backend_modes := (backend_modes s)(client_uid \<mapsto> mode)\<rparr>
              in case get_adapter E client_uid s0 of
                   (Raise e, s1) \<Rightarrow> (Raise e, s1)
                 | (Return adapter, s1) \<Rightarrow>
                     send_text ws
                       (JObj [(''type'', JStr ''backend-mode-set''), (''mode'', mode)]) s1))"

definition handle_get_backend_mode ::
  "env \<Rightarrow> wsid \<Rightarrow> uid \<Rightarrow> msg \<Rightarrow> hstate \<Rightarrow> unit outcome \<times> hstate" where
  "handle_get_backend_mode E ws client_uid data s =
     except_send_error ws
       (let mode = (case backend_modes s client_uid of None \<Rightarrow> JStr ''orphiq'' | Some m \<Rightarrow> m)
        in send_text ws (JObj [(''type'', JStr ''backend-mode''), (''mode'', mode)]) s)"

section \<open>WebSocketHandler: audio ingestion through the VAD\<close>

text \<open>
  VAD events are \<^verbatim>\<open>bytes\<close>; a \<open>string\<close> is a list of 8-bit characters, so the markers are
  the literals of the source. \<^verbatim>\<open>np.frombuffer(audio_bytes, dtype=np.int16)\<close> reads two bytes
  per sample (little-endian, two's complement) and raises \<^verbatim>\<open>ValueError\<close> on an odd number of
  bytes; \<^verbatim>\<open>astype(np.float32)\<close> is exact on 16-bit integers, so a sample is a real number.
\<close>

fun int16_values :: "string \<Rightarrow> int list" where
  "int16_values (lo # hi # rest) =
     (let u = int (of_char lo) + 256 * int (of_char hi)
      in (if u < 32768 then u else u - 65536) # int16_values rest)"
| "int16_values bs = []"

definition frombuffer_int16 :: "string \<Rightarrow> real list outcome" where
  "frombuffer_int16 bs =
     (if odd (length bs)
      then Raise (Exn ValueError ''buffer size must be a multiple of element size'')
      else Return (map real_of_int (int16_values bs)))"

definition control_envelope :: "string \<Rightarrow> jval" where
  "control_envelope t = JObj [(''type'', JStr ''control''), (''text'', JStr t)]"

text \<open>The \<^verbatim>\<open>for audio_bytes in ...detect_speech(chunk)\<close> loop of \<^verbatim>\<open>_handle_raw_audio_data\<close>.\<close>

fun vad_events ::
  "env \<Rightarrow> wsid \<Rightarrow> uid \<Rightarrow> string list \<Rightarrow> hstate \<Rightarrow> unit outcome \<times> hstate" where
  "vad_events E ws client_uid [] s = (Return (), s)"
| "vad_events E ws client_uid (audio_bytes # rest) s =
     (if audio_bytes = ''<|PAUSE|>'' then
        (case send_text ws (control_envelope ''interrupt'') s of
           (Raise e, s1) \<Rightarrow> (Raise e, s1)
         | (Return u, s1) \<Rightarrow> vad_events E ws client_uid rest s1)
      else if audio_bytes = ''<|RESUME|>'' then vad_events E ws client_uid rest s
      else if length audio_bytes > 1024 then
        (case received_data_buffers s client_uid of
           None \<Rightarrow> (Raise (Exn KeyError (py_repr E client_uid)), s)
         | Some buffer \<Rightarrow>
             (case frombuffer_int16 audio_bytes of
                Raise e \<Rightarrow> (Raise e, s)
              | Return samples \<Rightarrow>
                  (case send_text ws (control_envelope ''mic-audio-end'')
                          (s\<lparr>received_data_buffers :=
                               (received_data_buffers s)(client_uid \<mapsto> buffer @ samples)\<rparr>) of
                     (Raise e, s1) \<Rightarrow> (Raise e, s1)
                   | (Return u, s1) \<Rightarrow> vad_events E ws client_uid rest s1)))
      else vad_events E ws client_uid rest s)"

text \<open>
  \<^verbatim>\<open>_handle_raw_audio_data\<close>. The log line \<^verbatim>\<open>f"Chunk size: {len(chunk)}"\<close> evaluates
  \<^verbatim>\<open>len(chunk)\<close> before the detector is called, so a truthy chunk without a length raises.
\<close>

definition handle_raw_audio_data ::
  "env \<Rightarrow> wsid \<Rightarrow> uid \<Rightarrow> msg \<Rightarrow> hstate \<Rightarrow> unit outcome \<times> hstate" where
  "handle_raw_audio_data E ws client_uid data s =
     (case client_contexts s client_uid of
        None \<Rightarrow> (Raise (Exn KeyError (py_repr E client_uid)), s)
      | Some context \<Rightarrow>
          (let chunk = dict_get_default data ''audio'' (JList [])
           in if truthy chunk
              then (case py_len chunk of
                      Raise e \<Rightarrow> (Raise e, s)
                    | Return chunk_size \<Rightarrow>
                        (case detect_speech E (contexts s context) chunk of
                           (events, failure) \<Rightarrow>
                             (case vad_events E ws client_uid events s of
                                (Raise e, s1) \<Rightarrow> (Raise e, s1)
                              | (Return u, s1) \<Rightarrow>
                                  (case failure of
                                     Some e \<Rightarrow> (Raise e, s1)
                                   | None \<Rightarrow> (Return (), s1)))))
              else (Return (), s)))"

section \<open>WebSocketHandler: interrupts\<close>

text \<open>
  Modelled from the spec: \<^verbatim>\<open>ChatGroupManager.get_client_group\<close> (module \<^verbatim>\<open>chat_group\<close> is
  missing). The reverse map gives the client's group id, the empty string meaning no group.
\<close>

definition get_client_group :: "hstate \<Rightarrow> uid \<Rightarrow> chat_group option" where
  "get_client_group s client_uid =
     (case client_group_map s client_uid of
        None \<Rightarrow> None
      | Some gid \<Rightarrow> if gid = [] then None else groups s gid)"

text \<open>
  Modelled from the spec: cancelling a client's conversation task (module
  \<^verbatim>\<open>conversations.conversation_handler\<close> is missing). A live task reaches the terminal
  state \<open>Cancelled\<close>; the heard response is recorded in the memory of the context.
\<close>

definition cancel_task :: "uid \<Rightarrow> hstate \<Rightarrow> hstate" where
  "cancel_task client_uid s =
     (case current_conversation_tasks s client_uid of
        Some (Some Running) \<Rightarrow>
          s\<lparr>current_conversation_tasks :=
              (current_conversation_tasks s)(client_uid \<mapsto> Some Cancelled)\<rparr>
      | _ \<Rightarrow> s)"

text \<open>
  Modelled from the spec: recording the heard response in the conversation memory of a
  context (the agent engine's memory is outside \<^verbatim>\<open>src/\<close>).
\<close>

definition record_heard :: "cid \<Rightarrow> jval \<Rightarrow> hstate \<Rightarrow> hstate" where
  "record_heard c heard_response s = s\<lparr>heard := (heard s)(c := heard s c @ [heard_response])\<rparr>"

text \<open>
  Modelled from the spec: \<^verbatim>\<open>handle_individual_interrupt\<close> (module
  \<^verbatim>\<open>conversations.conversation_handler\<close> is missing): the client's live task is cancelled
  and the heard response recorded in its context.
\<close>

definition handle_individual_interrupt ::
  "uid \<Rightarrow> cid \<Rightarrow> jval \<Rightarrow> hstate \<Rightarrow> unit outcome \<times> hstate" where
  "handle_individual_interrupt client_uid context heard_response s =
     (Return (), record_heard context heard_response (cancel_task client_uid s))"

text \<open>
  Modelled from the spec: the group interrupt applied to the members one after the other
  (module \<^verbatim>\<open>conversations.conversation_handler\<close> is missing).
\<close>

fun interrupt_members :: "uid list \<Rightarrow> jval \<Rightarrow> hstate \<Rightarrow> hstate" where
  "interrupt_members [] heard_response s = s"
| "interrupt_members (member # rest) heard_response s =
     interrupt_members rest heard_response
       (let s1 = cancel_task member s
        in case client_contexts s1 member of
             None \<Rightarrow> s1
           | Some c \<Rightarrow> record_heard c heard_response s1)"

text \<open>
  Modelled from the spec: \<^verbatim>\<open>handle_group_interrupt\<close> (module
  \<^verbatim>\<open>conversations.conversation_handler\<close> is missing): every group member's live task is
  cancelled and the same heard response is recorded for every member.
\<close>

definition handle_group_interrupt :: "string \<Rightarrow> jval \<Rightarrow> hstate \<Rightarrow> unit outcome \<times> hstate" where
  "handle_group_interrupt gid heard_response s =
     (case groups s gid of
        None \<Rightarrow> (Return (), s)
      | Some g \<Rightarrow> (Return (), interrupt_members (members g) heard_response s))"

text \<open>\<^verbatim>\<open>_handle_interrupt\<close>.\<close>

definition handle_interrupt ::
  "env \<Rightarrow> wsid \<Rightarrow> uid \<Rightarrow> msg \<Rightarrow> hstate \<Rightarrow> unit outcome \<times> hstate" where
  "handle_interrupt E ws client_uid data s =
     (let heard_response = dict_get_default data ''text'' (JStr [])
      in case client_contexts s client_uid of
           None \<Rightarrow> (Raise (Exn KeyError (py_repr E client_uid)), s)
         | Some context \<Rightarrow>
             (case get_client_group s client_uid of
                None \<Rightarrow> handle_individual_interrupt client_uid context heard_response s
              | Some grp \<Rightarrow>
                  if length (members grp) > 1
                  then handle_group_interrupt (group_id grp) heard_response s
                  else handle_individual_interrupt client_uid context heard_response s))"

section \<open>WebSocketHandler: routing and the receive loop\<close>

text \<open>\<^verbatim>\<open>_init_message_handlers\<close>: the table from message type to handler method.\<close>

definition message_handlers :: "string \<rightharpoonup> handler" where
  "message_handlers = map_of
     [(''add-client-to-group'', H_group_operation),
      (''remove-client-from-group'', H_group_operation),
      (''request-group-info'', H_group_info),
      (''fetch-history-list'', H_history_list_request),
      (''fetch-and-set-history'', H_fetch_history),
      (''create-new-history'', H_create_history),
      (''delete-history'', H_delete_history),
      (''interrupt-signal'', H_interrupt),
      (''mic-audio-data'', H_audio_data),
      (''mic-audio-end'', H_conversation_trigger),
      (''raw-audio-data'', H_raw_audio_data),
      (''text-input'', H_conversation_trigger),
      (''ai-speak-signal'', H_conversation_trigger),
      (''fetch-configs'', H_fetch_configs),
      (''switch-config'', H_config_switch),
      (''fetch-backgrounds'', H_fetch_backgrounds),
      (''audio-play-start'', H_audio_play_start),
      (''expression-command'', H_expression_command),
      (''motion-command'', H_motion_command),
      (''text-generation-request'', H_text_generation_request),
      (''set-backend-mode'', H_set_backend_mode),
      (''get-backend-mode'', H_get_backend_mode)]"

text \<open>Calling a handler method: the ones modelled above, the others through the parameter.\<close>

definition run_handler ::
  "env \<Rightarrow> handler \<Rightarrow> wsid \<Rightarrow> uid \<Rightarrow> msg \<Rightarrow> hstate \<Rightarrow> unit outcome \<times> hstate" where
  "run_handler E h ws client_uid data s =
     (case h of
        H_interrupt \<Rightarrow> handle_interrupt E ws client_uid data s
      | H_raw_audio_data \<Rightarrow> handle_raw_audio_data E ws client_uid data s
      | H_expression_command \<Rightarrow> handle_expression_command E ws client_uid data s
      | H_motion_command \<Rightarrow> handle_motion_command E ws client_uid data s
      | H_text_generation_request \<Rightarrow> handle_text_generation_request E ws client_uid data s
      | H_set_backend_mode \<Rightarrow> handle_set_backend_mode E ws client_uid data s
      | H_get_backend_mode \<Rightarrow> handle_get_backend_mode E ws client_uid data s
      | _ \<Rightarrow> other_handlers E h ws client_uid data s)"

text \<open>
  \<^verbatim>\<open>self._message_handlers.get(msg_type)\<close>: a string is looked up in the table, a list or
  a dict is unhashable and raises \<^verbatim>\<open>TypeError\<close>, any other value is not a key of the table.
\<close>

definition lookup_handler :: "jval \<Rightarrow> handler option outcome" where
  "lookup_handler msg_type =
     (case msg_type of
        JStr t \<Rightarrow> Return (message_handlers t)
      | JList xs \<Rightarrow> Raise (Exn TypeError (''unhashable type: '' @ [CHR 0x27] @ ''list'' @ [CHR 0x27]))
      | JObj kvs \<Rightarrow> Raise (Exn TypeError (''unhashable type: '' @ [CHR 0x27] @ ''dict'' @ [CHR 0x27]))
      | _ \<Rightarrow> Return None)"

text \<open>\<^verbatim>\<open>_route_message\<close>. Logging has no effect on the state.\<close>

definition route_message ::
  "env \<Rightarrow> wsid \<Rightarrow> uid \<Rightarrow> msg \<Rightarrow> hstate \<Rightarrow> unit outcome \<times> hstate" where
  "route_message E ws client_uid data s =
     (let msg_type = dict_get data ''type''
      in if \<not> truthy msg_type then (Return (), s)
         else (case lookup_handler msg_type of
                 Raise e \<Rightarrow> (Raise e, s)
               | Return None \<Rightarrow> (Return (), s)
               | Return (Some h) \<Rightarrow> run_handler E h ws client_uid data s))"

text \<open>
  One iteration of the \<^verbatim>\<open>while True\<close> loop of \<^verbatim>\<open>handle_websocket_communication\<close>.
  \<^verbatim>\<open>receive_json\<close> either returns a message or raises. The result \<open>None\<close> means the loop goes
  on to the next iteration, \<open>Some e\<close> that it ends by raising \<open>e\<close>.
\<close>

datatype received = Received msg | Receive_raises exn

definition loop_iteration ::
  "env \<Rightarrow> wsid \<Rightarrow> uid \<Rightarrow> received \<Rightarrow> hstate \<Rightarrow> exn option \<times> hstate" where
  "loop_iteration E ws client_uid r s =
     (case (case r of
              Receive_raises e \<Rightarrow> (Raise e, s)
            | Received data \<Rightarrow>
                (case message_handler E client_uid data of
                   Some e \<Rightarrow> (Raise e, s)
                 | None \<Rightarrow> route_message E ws client_uid data s)) of
        (Return u, s1) \<Rightarrow> (None, s1)
      | (Raise e, s1) \<Rightarrow>
          if exn_class e = WebSocketDisconnect then (Some e, s1)
          else if exn_class e = JSONDecodeError then (None, s1)
          else (case send_text ws (error_envelope (exn_msg e)) s1 of
                  (Raise e', s2) \<Rightarrow> (Some e', s2)
                | (Return u, s2) \<Rightarrow> (None, s2)))"

text \<open>
  The loop over the messages received so far. It never returns: it is either still
  waiting (\<open>None\<close>) or has ended by raising.
\<close>

fun handle_websocket_communication ::
  "env \<Rightarrow> wsid \<Rightarrow> uid \<Rightarrow> received list \<Rightarrow> hstate \<Rightarrow> exn option \<times> hstate" where
  "handle_websocket_communication E ws client_uid [] s = (None, s)"
| "handle_websocket_communication E ws client_uid (r # rs) s =
     (case loop_iteration E ws client_uid r s of
        (Some e, s1) \<Rightarrow> (Some e, s1)
      | (None, s1) \<Rightarrow> handle_websocket_communication E ws client_uid rs s1)"


section \<open>Concrete instances\<close>

text \<open>
  One instance of the parameters and a few states, on which the model is evaluated below.
  \<open>example_str\<close> is Python's \<^verbatim>\<open>str\<close> on \<^verbatim>\<open>None\<close>, booleans, integers and strings, the only
  values the examples format. The agent of the example yields the two sentences of the
  repository's test \<^verbatim>\<open>test_generate_text_multiple_chunks\<close>; \<open>failing_env\<close> is the same with
  an agent that raises after its first sentence.
\<close>

fun str_nat :: "nat \<Rightarrow> string" where
  "str_nat n =
     (if n < 10 then [char_of (48 + n)] else str_nat (n div 10) @ [char_of (48 + n mod 10)])"

fun example_str :: "jval \<Rightarrow> string" where
  "example_str JNull = ''None''"
| "example_str (JBool b) = (if b then ''True'' else ''False'')"
| "example_str (JInt i) = (if i < 0 then ''-'' @ str_nat (nat (- i)) else str_nat (nat i))"
| "example_str (JStr t) = t"
| "example_str v = []"

definition example_env :: env where
  "example_env =
     \<lparr>py_str = example_str,
      py_repr = (\<lambda>k. [CHR 0x27] @ k @ [CHR 0x27]),
      actions_to_dict = (\<lambda>xs. Return (JObj [(''expressions'', JList xs)])),
      agent_chat = (\<lambda>c prompt. ([SentenceOutput ''Hello, '', SentenceOutput ''world!''], None)),
      detect_speech = (\<lambda>c chunk. ([''<|PAUSE|>'', ''<|RESUME|>'', replicate 1026 (CHR 0x01)], None)),
      message_handler = (\<lambda>client_uid data. None),
      other_handlers = (\<lambda>h ws client_uid data s. (Return (), s))\<rparr>"

definition failing_env :: env where
  "failing_env =
     example_env\<lparr>agent_chat :=
       (\<lambda>c prompt. ([SentenceOutput ''Hello, ''], Some (Exn OtherException ''agent failed'')))\<rparr>"

definition example_context :: service_context where
  "example_context =
     \<lparr>character_name = JStr ''TestCharacter'',
      human_name = JStr ''Human'',
      avatar = JStr ''test.png'',
      conf_uid = JStr ''test-conf-uid'',
      live2d_model_name = JStr ''test_model''\<rparr>"

text \<open>
  \<open>example_state\<close>: client \<open>''A''\<close> has just connected on transport 0: it has its context and
  an empty buffer, no adapter, no recorded mode, no group. \<open>adapter_state\<close>: the same after
  its adapter (reference 0) has been created. \<open>closed_state\<close>: as \<open>adapter_state\<close>, but every
  \<^verbatim>\<open>send_text\<close> raises. \<open>group_state\<close>: \<open>''A''\<close> and \<open>''B''\<close> are the members of group \<open>''g''\<close>
  and both have a running conversation task.
\<close>

definition example_state :: hstate where
  "example_state =
     \<lparr>client_connections = [''A'' \<mapsto> 0],
      client_contexts = [''A'' \<mapsto> 0],
      received_data_buffers = [''A'' \<mapsto> []],
      client_adapters = Map.empty,
      backend_modes = Map.empty,
      current_conversation_tasks = Map.empty,
      client_group_map = [''A'' \<mapsto> []],
      groups = Map.empty,
      contexts = (\<lambda>c. example_context),
      heard = (\<lambda>c. []),
      adapters = (\<lambda>r. new_adapter 0 []),
      next_aid = 0,
      ws_sent = (\<lambda>w. []),
      ws_fail = (\<lambda>w. None)\<rparr>"

definition adapter_state :: hstate where
  "adapter_state =
     example_state\<lparr>client_adapters := [''A'' \<mapsto> 0],
                   adapters := (\<lambda>r. new_adapter 0 ''A''),
                   next_aid := 1\<rparr>"

definition closed_state :: hstate where
  "closed_state = adapter_state\<lparr>ws_fail := (\<lambda>w. Some (Exn OtherException ''closed''))\<rparr>"

definition group_state :: hstate where
  "group_state =
     example_state\<lparr>client_connections := [''A'' \<mapsto> 0, ''B'' \<mapsto> 1],
                   client_contexts := [''A'' \<mapsto> 0, ''B'' \<mapsto> 1],
                   current_conversation_tasks := [''A'' \<mapsto> Some Running, ''B'' \<mapsto> Some Running],
                   client_group_map := [''A'' \<mapsto> ''g'', ''B'' \<mapsto> ''g''],
                   groups := [''g'' \<mapsto> \<lparr>group_id = ''g'', owner_uid = ''A'', members = [''A'', ''B'']\<rparr>]\<rparr>"

section \<open>Notions used to state the properties\<close>

text \<open>Reading a field of a result record or of an envelope.\<close>

fun dict_field :: "string \<Rightarrow> jval \<Rightarrow> jval option" where
  "dict_field k (JObj kvs) = map_of kvs k"
| "dict_field k v = None"


definition same_table :: "hstate \<Rightarrow> hstate \<Rightarrow> bool" where
  "same_table s s' = (client_adapters s' = client_adapters s \<and> next_aid s' = next_aid s)"


text \<open>
  What the spec says one VAD event produces: the envelopes sent to the sender and the
  samples appended to the sender's buffer. The segmentation threshold is 1024 bytes. A
  segment holds 16-bit samples: sample \<open>i\<close> is the signed number whose low byte is byte
  \<open>2 * i\<close> and whose high byte is byte \<open>2 * i + 1\<close> of the segment.
\<close>

definition event_envelopes :: "string \<Rightarrow> jval list" where
  "event_envelopes ev =
     (if ev = ''<|PAUSE|>'' then [JObj [(''type'', JStr ''control''), (''text'', JStr ''interrupt'')]]
      else if ev = ''<|RESUME|>'' then []
      else if 1024 < length ev
      then [JObj [(''type'', JStr ''control''), (''text'', JStr ''mic-audio-end'')]]
      else [])"

definition sample_at :: "string \<Rightarrow> nat \<Rightarrow> real" where
  "sample_at ev i =
     (let u = int (of_char (ev ! (2 * i))) + 256 * int (of_char (ev ! (2 * i + 1)))
      in real_of_int (if u < 32768 then u else u - 65536))"

definition segment_samples :: "string \<Rightarrow> real list" where
  "segment_samples ev = map (sample_at ev) [0..<length ev div 2]"

definition event_samples :: "string \<Rightarrow> real list" where
  "event_samples ev =
     (if ev = ''<|PAUSE|>'' \<or> ev = ''<|RESUME|>'' then []
      else if 1024 < length ev then segment_samples ev
      else [])"

text \<open>A task after cancellation: a running task is cancelled, any other is as it was.\<close>

fun cancelled :: "task option option \<Rightarrow> task option option" where
  "cancelled (Some (Some Running)) = Some (Some Cancelled)"
| "cancelled t = t"

section \<open>Transport and adapter lemmas\<close>

declare str_nat.simps [simp del]

lemma send_text_fail: "ws_fail s w = Some e \<Longrightarrow> send_text w p s = (Raise e, s)"
  by (simp add: send_text_def)

lemma send_text_ok:
  "ws_fail s w = None \<Longrightarrow>
   send_text w p s = (Return (), s\<lparr>ws_sent := (ws_sent s)(w := ws_sent s w @ [p])\<rparr>)"
  by (simp add: send_text_def)


section \<open>OrphiqAdapter: a failed notification\<close>

text \<open>
  C10. On \<^verbatim>\<open>OrphiqAdapter\<close>, when the transport of the adapter's client raises on
  \<^verbatim>\<open>send_text\<close>, so that the notification inside \<^verbatim>\<open>trigger_expression\<close> and
  \<^verbatim>\<open>trigger_motion\<close> raises, each operation returns a record whose status is \<^verbatim>\<open>"error"\<close>
  and leaves the state as it was: the adapter's recorded expression and motion are
  unchanged and \<^verbatim>\<open>get_character_state\<close> returns what it returned before the call.
\<close>

theorem trigger_notification_failure:
  assumes conn: "client_connections s (a_client (adapters s self)) = Some w"
      and fail: "ws_fail s w = Some e"
  shows "(\<exists>r. trigger_expression E self expression_id duration priority s = (Return r, s)
              \<and> dict_field ''status'' r = Some (JStr ''error''))
       \<and> (\<exists>r. trigger_motion self motion_group motion_index loop priority s = (Return r, s)
              \<and> dict_field ''status'' r = Some (JStr ''error''))
       \<and> get_character_state self
            (snd (trigger_expression E self expression_id duration priority s))
           = get_character_state self s
       \<and> get_character_state self
            (snd (trigger_motion self motion_group motion_index loop priority s))
           = get_character_state self s"
proof -
  have notify: "websocket_send (a_client (adapters s self)) p s = (Raise e, s)" for p
    using conn fail by (simp add: websocket_send_def send_text_fail)
  have expr: "\<exists>e'. trigger_expression E self expression_id duration priority s
                  = (Return (error_result e'), s)"
    by (cases "actions_to_dict E [expression_id]")
       (auto simp: trigger_expression_def trigger_expression_body_def notify)
  have motion: "trigger_motion self motion_group motion_index loop priority s
                  = (Return (error_result e), s)"
    by (simp add: trigger_motion_def trigger_motion_body_def notify)
  from expr motion show ?thesis
    by (auto simp: error_result_def)
qed

theorem trigger_notification_failure_witness:
  "client_connections closed_state (a_client (adapters closed_state 0)) = Some 0
   \<and> ws_fail closed_state 0 = Some (Exn OtherException ''closed'')
   \<and> trigger_expression example_env 0 (JInt 3) (JInt 0) (JInt 0) closed_state
       = (Return (JObj [(''status'', JStr ''error''), (''error'', JStr ''closed'')]), closed_state)
   \<and> get_character_state 0
        (snd (trigger_motion 0 (JStr ''idle'') (JInt 0) (JBool False) (JInt 0) closed_state))
       = get_character_state 0 closed_state"
proof -
  have conn: "client_connections closed_state (a_client (adapters closed_state 0)) = Some 0"
    by (simp add: closed_state_def adapter_state_def example_state_def new_adapter_def)
  have fail: "ws_fail closed_state 0 = Some (Exn OtherException ''closed'')"
    by (simp add: closed_state_def)
  have run: "trigger_expression example_env 0 (JInt 3) (JInt 0) (JInt 0) closed_state
       = (Return (JObj [(''status'', JStr ''error''), (''error'', JStr ''closed'')]), closed_state)"
    using conn fail
    by (simp add: trigger_expression_def trigger_expression_body_def example_env_def
        websocket_send_def send_text_fail error_result_def)
  from trigger_notification_failure [OF conn fail] conn fail run show ?thesis
    by blast
qed

section \<open>The adapter table\<close>

text \<open>
  Which steps touch \<^verbatim>\<open>client_adapters\<close> and the allocator: sending and the adapter
  operations leave both alone; \<^verbatim>\<open>_get_adapter\<close> only ever adds a newly constructed adapter;
  \<^verbatim>\<open>_handle_set_backend_mode\<close> removes the client's entry before it looks the adapter up.
\<close>

lemma same_table_refl [simp]: "same_table s s"
  by (simp add: same_table_def)





































section \<open>Switching the backend mode\<close>

lemma except_send_error_return [simp]:
  "except_send_error ws (Return u, s) = (Return u, s)"
  by (simp add: except_send_error_def)

lemma except_send_error_raise [simp]:
  "except_send_error ws (Raise e, s) = send_text ws (error_envelope (exn_msg e)) s"
  by (simp add: except_send_error_def)

text \<open>
  C2, as the code has it. The modes the handler accepts are \<^verbatim>\<open>orphiq\<close>, \<^verbatim>\<open>external-api\<close>
  and \<^verbatim>\<open>autonomous\<close>. For a registered client whose transport accepts sends:
  \<^item> a mode outside that list (also \<^verbatim>\<open>bridge\<close>) yields the error envelope naming the mode,
    and neither the recorded modes nor the adapter table change;
  \<^item> the mode \<^verbatim>\<open>orphiq\<close> (also when the message has no mode) is recorded, the client's
    adapter is replaced by a newly constructed one, and the acknowledgement
    \<^verbatim>\<open>backend-mode-set\<close> carrying the mode is sent;
  \<^item> the modes \<^verbatim>\<open>external-api\<close> and \<^verbatim>\<open>autonomous\<close> have no adapter yet: the error envelope
    "not yet implemented" is sent and no acknowledgement.
\<close>

theorem set_backend_mode_outcomes:
  assumes ctx: "client_contexts s client_uid = Some c"
      and ok: "ws_fail s ws = None"
      and mode: "mode = dict_get_default data ''mode'' (JStr ''orphiq'')"
      and s': "s' = snd (handle_set_backend_mode E ws client_uid data s)"
  shows "(mode \<notin> set valid_modes \<longrightarrow>
            ws_sent s' ws = ws_sent s ws @ [error_envelope (invalid_mode_message E mode)]
            \<and> backend_modes s' = backend_modes s
            \<and> client_adapters s' = client_adapters s)
       \<and> (mode = JStr ''orphiq'' \<longrightarrow>
            ws_sent s' ws
              = ws_sent s ws @ [JObj [(''type'', JStr ''backend-mode-set''), (''mode'', mode)]]
            \<and> backend_modes s' client_uid = Some mode
            \<and> client_adapters s' client_uid = Some (next_aid s)
            \<and> adapters s' (next_aid s) = new_adapter c client_uid)
       \<and> (mode = JStr ''external-api'' \<or> mode = JStr ''autonomous'' \<longrightarrow>
            ws_sent s' ws = ws_sent s ws @ [error_envelope (not_implemented_message E mode)])"
  using ctx ok unfolding s' handle_set_backend_mode_def mode [symmetric] Let_def
  by (auto simp: valid_modes_def get_adapter_def send_text_ok not_implemented_message_def)


theorem set_backend_mode_outcomes_witness:
  "client_contexts example_state ''A'' = Some 0
   \<and> ws_fail example_state 0 = None
   \<and> ws_sent (snd (handle_set_backend_mode example_env 0 ''A''
                     [''type'' \<mapsto> JStr ''set-backend-mode'', ''mode'' \<mapsto> JStr ''orphiq'']
                     example_state)) 0
       = ws_sent example_state 0
           @ [JObj [(''type'', JStr ''backend-mode-set''), (''mode'', JStr ''orphiq'')]]
   \<and> client_adapters (snd (handle_set_backend_mode example_env 0 ''A''
                     [''type'' \<mapsto> JStr ''set-backend-mode'', ''mode'' \<mapsto> JStr ''orphiq'']
                     example_state)) ''A'' = Some (next_aid example_state)"
proof -
  have ctx: "client_contexts example_state ''A'' = Some 0"
    by (simp add: example_state_def)
  have ok: "ws_fail example_state 0 = None"
    by (simp add: example_state_def)
  have mode: "JStr ''orphiq''
      = dict_get_default [''type'' \<mapsto> JStr ''set-backend-mode'', ''mode'' \<mapsto> JStr ''orphiq'']
          ''mode'' (JStr ''orphiq'')"
    by (simp add: dict_get_default_def)
  from set_backend_mode_outcomes [OF ctx ok mode refl, of example_env] ctx ok
  show ?thesis by blast
qed

text \<open>
  The mode \<^verbatim>\<open>bridge\<close> is not one the handler accepts: for a client holding adapter 0 the
  handler answers with the error envelope, keeps adapter 0 and records no mode.
\<close>

theorem bridge_mode_rejected:
  "ws_sent (snd (handle_set_backend_mode example_env 0 ''A''
                   [''type'' \<mapsto> JStr ''set-backend-mode'', ''mode'' \<mapsto> JStr ''bridge'']
                   adapter_state)) 0
     = [error_envelope
          ''Invalid backend mode: bridge. Must be one of: orphiq, external-api, autonomous'']
   \<and> client_adapters (snd (handle_set_backend_mode example_env 0 ''A''
                   [''type'' \<mapsto> JStr ''set-backend-mode'', ''mode'' \<mapsto> JStr ''bridge'']
                   adapter_state)) ''A'' = Some 0
   \<and> backend_modes (snd (handle_set_backend_mode example_env 0 ''A''
                   [''type'' \<mapsto> JStr ''set-backend-mode'', ''mode'' \<mapsto> JStr ''bridge'']
                   adapter_state)) ''A'' = None"
  by (simp add: handle_set_backend_mode_def dict_get_default_def valid_modes_def
      invalid_mode_message_def example_env_def send_text_def adapter_state_def
      example_state_def)

text \<open>
  C3, evaluated. Client \<open>''A''\<close> holds adapter 0 and has no recorded mode. Handling
  \<^verbatim>\<open>set-backend-mode\<close> with mode \<^verbatim>\<open>external-api\<close>, for which adapter creation raises, sends
  the error envelope, and leaves the session changed: the mode \<^verbatim>\<open>external-api\<close> is
  recorded and the adapter is gone.
\<close>

theorem failed_switch_changes_session:
  "ws_sent (snd (handle_set_backend_mode example_env 0 ''A''
                   [''type'' \<mapsto> JStr ''set-backend-mode'', ''mode'' \<mapsto> JStr ''external-api'']
                   adapter_state)) 0
     = [error_envelope
          (''Backend mode '' @ [CHR 0x27] @ ''external-api'' @ [CHR 0x27] @ '' not yet implemented'')]
   \<and> backend_modes adapter_state ''A'' = None
   \<and> backend_modes (snd (handle_set_backend_mode example_env 0 ''A''
                   [''type'' \<mapsto> JStr ''set-backend-mode'', ''mode'' \<mapsto> JStr ''external-api'']
                   adapter_state)) ''A'' = Some (JStr ''external-api'')
   \<and> client_adapters adapter_state ''A'' = Some 0
   \<and> client_adapters (snd (handle_set_backend_mode example_env 0 ''A''
                   [''type'' \<mapsto> JStr ''set-backend-mode'', ''mode'' \<mapsto> JStr ''external-api'']
                   adapter_state)) ''A'' = None"
  by (simp add: handle_set_backend_mode_def dict_get_default_def valid_modes_def
      get_adapter_def not_implemented_message_def example_env_def send_text_def adapter_state_def
      example_state_def)


section \<open>Routing a message with an unknown tag\<close>

text \<open>
  C4. For an inbound message whose type tag is a string with no entry in the handler
  table (such as \<^verbatim>\<open>"foo-bar"\<close>), \<^verbatim>\<open>_route_message\<close> calls no handler: it returns normally and
  leaves the whole state as it was, so no envelope is sent on any transport and no handler
  state changes. When \<^verbatim>\<open>message_handler.handle_message\<close>, which the loop calls before
  routing, returns normally, the iteration of the receive loop ends without an exception
  and the loop goes on with the next message in the same state.
\<close>

theorem unknown_tag_dropped:
  assumes tag: "data ''type'' = Some (JStr t)"
      and unknown: "message_handlers t = None"
      and handled: "message_handler E client_uid data = None"
  shows "route_message E ws client_uid data s = (Return (), s)
       \<and> loop_iteration E ws client_uid (Received data) s = (None, s)
       \<and> handle_websocket_communication E ws client_uid (Received data # rest) s
           = handle_websocket_communication E ws client_uid rest s"
proof -
  have route: "route_message E ws client_uid data s = (Return (), s)"
    using tag unknown
    by (simp add: route_message_def dict_get_def lookup_handler_def)
  then have step: "loop_iteration E ws client_uid (Received data) s = (None, s)"
    using handled by (simp add: loop_iteration_def)
  from route step show ?thesis by simp
qed

theorem unknown_tag_dropped_witness:
  "message_handlers ''foo-bar'' = None
   \<and> message_handler example_env ''A'' [''type'' \<mapsto> JStr ''foo-bar''] = None
   \<and> route_message example_env 0 ''A'' [''type'' \<mapsto> JStr ''foo-bar''] example_state
       = (Return (), example_state)
   \<and> loop_iteration example_env 0 ''A'' (Received [''type'' \<mapsto> JStr ''foo-bar'']) example_state
       = (None, example_state)"
proof -
  have tag: "[''type'' \<mapsto> JStr ''foo-bar''] ''type'' = Some (JStr ''foo-bar'')"
    by simp
  have unknown: "message_handlers ''foo-bar'' = None"
    by (simp add: message_handlers_def)
  have handled: "message_handler example_env ''A'' [''type'' \<mapsto> JStr ''foo-bar''] = None"
    by (simp add: example_env_def)
  from unknown_tag_dropped [OF tag unknown handled] unknown handled
  show ?thesis by blast
qed

section \<open>Interrupts\<close>

lemma cancel_task_tasks:
  "current_conversation_tasks (cancel_task u s) m
     = (if m = u then cancelled (current_conversation_tasks s m)
        else current_conversation_tasks s m)"
  by (cases "current_conversation_tasks s u" rule: cancelled.cases)
     (auto simp: cancel_task_def)

lemma cancelled_idem [simp]: "cancelled (cancelled t) = cancelled t"
  by (cases t rule: cancelled.cases) simp_all

lemma member_step_tasks:
  "current_conversation_tasks
     (let s1 = cancel_task u s
      in case client_contexts s1 u of None \<Rightarrow> s1 | Some c \<Rightarrow> record_heard c h s1) m
   = (if m = u then cancelled (current_conversation_tasks s m)
      else current_conversation_tasks s m)"
  by (simp add: Let_def cancel_task_tasks record_heard_def split: option.splits)

lemma interrupt_members_tasks:
  "current_conversation_tasks (interrupt_members us h s) m
     = (if m \<in> set us then cancelled (current_conversation_tasks s m)
        else current_conversation_tasks s m)"
proof (induction us arbitrary: s)
  case Nil
  then show ?case by simp
next
  case (Cons u us)
  show ?case
    unfolding interrupt_members.simps Cons.IH member_step_tasks
    by simp
qed

text \<open>
  C5. For an interrupt-signal message of a registered client, with \<open>heard_response\<close> the
  message's \<^verbatim>\<open>text\<close> field (the empty string when the field is absent): if the client's
  group \<open>g\<close> has more than one member, \<^verbatim>\<open>_handle_interrupt\<close> is the group interrupt of that
  group with this \<open>heard_response\<close>, which cancels the live task of every member; if the
  client has no group or a group of at most one member, it is the individual interrupt of
  this client with the same \<open>heard_response\<close>, which cancels the task of this client only.
\<close>

theorem interrupt_path:
  assumes ctx: "client_contexts s client_uid = Some c"
      and heard_response: "heard_response = dict_get_default data ''text'' (JStr [])"
  shows "(get_client_group s client_uid = Some g \<and> 1 < length (members g) \<longrightarrow>
            handle_interrupt E ws client_uid data s
              = handle_group_interrupt (group_id g) heard_response s)
       \<and> (get_client_group s client_uid = None
            \<or> (\<exists>g. get_client_group s client_uid = Some g \<and> length (members g) \<le> 1) \<longrightarrow>
            handle_interrupt E ws client_uid data s
              = handle_individual_interrupt client_uid c heard_response s)
       \<and> (data ''text'' = None \<longrightarrow> heard_response = JStr [])
       \<and> (\<forall>v. data ''text'' = Some v \<longrightarrow> heard_response = v)
       \<and> (groups s (group_id g) = Some g \<and> m \<in> set (members g) \<longrightarrow>
            current_conversation_tasks
              (snd (handle_group_interrupt (group_id g) heard_response s)) m
              = cancelled (current_conversation_tasks s m))
       \<and> current_conversation_tasks
              (snd (handle_individual_interrupt client_uid c heard_response s)) m
            = (if m = client_uid then cancelled (current_conversation_tasks s m)
               else current_conversation_tasks s m)"
  using ctx unfolding heard_response
  by (auto simp: handle_interrupt_def handle_group_interrupt_def handle_individual_interrupt_def
        dict_get_default_def interrupt_members_tasks cancel_task_tasks record_heard_def)


theorem interrupt_path_witness:
  "client_contexts group_state ''B'' = Some 1
   \<and> get_client_group group_state ''B''
       = Some \<lparr>group_id = ''g'', owner_uid = ''A'', members = [''A'', ''B'']\<rparr>
   \<and> handle_interrupt example_env 1 ''B''
        [''type'' \<mapsto> JStr ''interrupt-signal'', ''text'' \<mapsto> JStr ''ok''] group_state
       = handle_group_interrupt ''g'' (JStr ''ok'') group_state
   \<and> current_conversation_tasks
        (snd (handle_group_interrupt ''g'' (JStr ''ok'') group_state)) ''A''
       = Some (Some Cancelled)
   \<and> client_contexts example_state ''A'' = Some 0
   \<and> get_client_group example_state ''A'' = None
   \<and> handle_interrupt example_env 0 ''A'' [''type'' \<mapsto> JStr ''interrupt-signal''] example_state
       = handle_individual_interrupt ''A'' 0 (JStr []) example_state"
proof -
  let ?g = "\<lparr>group_id = ''g'', owner_uid = ''A'', members = [''A'', ''B'']\<rparr>"
  have ctx: "client_contexts group_state ''B'' = Some 1"
    by (simp add: group_state_def)
  have heard: "JStr ''ok''
      = dict_get_default [''type'' \<mapsto> JStr ''interrupt-signal'', ''text'' \<mapsto> JStr ''ok'']
          ''text'' (JStr [])"
    by (simp add: dict_get_default_def)
  have grp: "get_client_group group_state ''B'' = Some ?g"
    by (simp add: get_client_group_def group_state_def)
  have reg: "groups group_state (group_id ?g) = Some ?g"
    by (simp add: group_state_def)
  have task: "current_conversation_tasks group_state ''A'' = Some (Some Running)"
    by (simp add: group_state_def)
  have ctx2: "client_contexts example_state ''A'' = Some 0"
    by (simp add: example_state_def)
  have heard2: "JStr []
      = dict_get_default [''type'' \<mapsto> JStr ''interrupt-signal''] ''text'' (JStr [])"
    by (simp add: dict_get_default_def)
  have grp2: "get_client_group example_state ''A'' = None"
    by (simp add: get_client_group_def example_state_def)
  note group_case = interrupt_path [OF ctx heard, where E = example_env and ws = 1
      and g = ?g and m = "''A''"]
  note single_case = interrupt_path [OF ctx2 heard2, where E = example_env and ws = 0]
  have path: "handle_interrupt example_env 1 ''B''
        [''type'' \<mapsto> JStr ''interrupt-signal'', ''text'' \<mapsto> JStr ''ok''] group_state
       = handle_group_interrupt ''g'' (JStr ''ok'') group_state"
    using group_case grp by simp
  have cancel: "current_conversation_tasks
        (snd (handle_group_interrupt ''g'' (JStr ''ok'') group_state)) ''A''
       = Some (Some Cancelled)"
    using group_case reg task by simp
  have single: "handle_interrupt example_env 0 ''A'' [''type'' \<mapsto> JStr ''interrupt-signal'']
        example_state = handle_individual_interrupt ''A'' 0 (JStr []) example_state"
    using single_case grp2 by simp
  from ctx grp path cancel ctx2 grp2 single show ?thesis by simp
qed

section \<open>Audio ingestion through the VAD\<close>

lemma int16_values_samples: "map real_of_int (int16_values bs) = segment_samples bs"
proof (induction bs rule: int16_values.induct)
  case (1 lo hi rest)
  have shift: "sample_at (lo # hi # rest) (Suc i) = sample_at rest i" for i
    by (simp add: sample_at_def)
  have first: "sample_at (lo # hi # rest) 0
      = real_of_int (let u = int (of_char lo) + 256 * int (of_char hi)
                     in if u < 32768 then u else u - 65536)"
    by (simp add: sample_at_def Let_def)
  have "segment_samples (lo # hi # rest)
      = sample_at (lo # hi # rest) 0 # map (\<lambda>i. sample_at (lo # hi # rest) (Suc i))
                                          [0..<length rest div 2]"
    by (simp add: segment_samples_def map_upt_Suc del: upt_Suc)
  also have "\<dots> = sample_at (lo # hi # rest) 0 # segment_samples rest"
    by (simp add: shift segment_samples_def)
  finally show ?case
    using "1.IH" by (simp add: first Let_def)
qed (simp_all add: segment_samples_def)

lemma nonempty_truthy: "py_len v = Return n \<Longrightarrow> 0 < n \<Longrightarrow> truthy v"
  by (cases v) (auto simp: no_len_def)

lemma event_samples_pause: "event_samples ''<|PAUSE|>'' = []"
  by (simp add: event_samples_def)

lemma event_envelopes_pause: "event_envelopes ''<|PAUSE|>'' = [control_envelope ''interrupt'']"
  by (simp add: event_envelopes_def control_envelope_def)

lemma event_samples_resume: "event_samples ''<|RESUME|>'' = []"
  by (simp add: event_samples_def)

lemma event_envelopes_resume: "event_envelopes ''<|RESUME|>'' = []"
  by (simp add: event_envelopes_def)

lemma event_samples_segment:
  "ev \<noteq> ''<|PAUSE|>'' \<Longrightarrow> ev \<noteq> ''<|RESUME|>'' \<Longrightarrow> 1024 < length ev \<Longrightarrow>
   event_samples ev = map real_of_int (int16_values ev)"
  by (simp add: event_samples_def int16_values_samples)

lemma event_envelopes_segment:
  "ev \<noteq> ''<|PAUSE|>'' \<Longrightarrow> ev \<noteq> ''<|RESUME|>'' \<Longrightarrow> 1024 < length ev \<Longrightarrow>
   event_envelopes ev = [control_envelope ''mic-audio-end'']"
  by (simp add: event_envelopes_def control_envelope_def)

lemma event_samples_short: "\<not> 1024 < length ev \<Longrightarrow> event_samples ev = []"
  by (simp add: event_samples_def)

lemma event_envelopes_short:
  "ev \<noteq> ''<|PAUSE|>'' \<Longrightarrow> ev \<noteq> ''<|RESUME|>'' \<Longrightarrow> \<not> 1024 < length ev \<Longrightarrow>
   event_envelopes ev = []"
  by (simp add: event_envelopes_def)

lemma vad_events_run:
  assumes ok: "ws_fail s ws = None"
      and buf: "received_data_buffers s client_uid = Some b"
      and wf: "\<forall>ev \<in> set evs. 1024 < length ev \<longrightarrow> even (length ev)"
  shows "vad_events E ws client_uid evs s
     = (Return (),
        s\<lparr>received_data_buffers :=
             (received_data_buffers s)(client_uid \<mapsto> b @ concat (map event_samples evs)),
          ws_sent := (ws_sent s)(ws := ws_sent s ws @ concat (map event_envelopes evs))\<rparr>)"
  using assms
proof (induction evs arbitrary: s b)
  case Nil
  then show ?case by (simp add: map_upd_triv)
next
  case (Cons ev evs)
  have wf': "\<forall>ev \<in> set evs. 1024 < length ev \<longrightarrow> even (length ev)"
    using Cons.prems(3) by simp
  note skip = Cons.IH [OF Cons.prems(1) Cons.prems(2) wf']
  consider (pause) "ev = ''<|PAUSE|>''"
    | (resume) "ev = ''<|RESUME|>''"
    | (segment) "ev \<noteq> ''<|PAUSE|>''" "ev \<noteq> ''<|RESUME|>''" "1024 < length ev"
    | (short) "ev \<noteq> ''<|PAUSE|>''" "ev \<noteq> ''<|RESUME|>''" "\<not> 1024 < length ev"
    by blast
  then show ?case
  proof cases
    case pause
    let ?s1 = "s\<lparr>ws_sent := (ws_sent s)(ws := ws_sent s ws @ [control_envelope ''interrupt''])\<rparr>"
    have step: "vad_events E ws client_uid (ev # evs) s = vad_events E ws client_uid evs ?s1"
      using pause Cons.prems(1) by (simp add: send_text_ok)
    have rest: "vad_events E ws client_uid evs ?s1 = (Return (),
        ?s1\<lparr>received_data_buffers :=
             (received_data_buffers ?s1)(client_uid \<mapsto> b @ concat (map event_samples evs)),
          ws_sent := (ws_sent ?s1)(ws := ws_sent ?s1 ws @ concat (map event_envelopes evs))\<rparr>)"
      using Cons.prems(1,2) wf' by (intro Cons.IH) simp_all
    show ?thesis
      unfolding step rest
      by (auto simp: pause event_samples_pause event_envelopes_pause intro!: hstate.equality)
  next
    case resume
    have step: "vad_events E ws client_uid (ev # evs) s = vad_events E ws client_uid evs s"
      using resume by simp
    show ?thesis
      unfolding step skip
      by (auto simp: resume event_samples_resume event_envelopes_resume intro!: hstate.equality)
  next
    case segment
    then have ev: "even (length ev)" using Cons.prems(3) by simp
    let ?b1 = "b @ map real_of_int (int16_values ev)"
    let ?s1 = "s\<lparr>received_data_buffers := (received_data_buffers s)(client_uid \<mapsto> ?b1),
                 ws_sent := (ws_sent s)(ws := ws_sent s ws @ [control_envelope ''mic-audio-end''])\<rparr>"
    have step: "vad_events E ws client_uid (ev # evs) s = vad_events E ws client_uid evs ?s1"
      using segment ev Cons.prems(1,2)
      by (simp add: send_text_ok frombuffer_int16_def)
    have rest: "vad_events E ws client_uid evs ?s1 = (Return (),
        ?s1\<lparr>received_data_buffers :=
             (received_data_buffers ?s1)(client_uid \<mapsto> ?b1 @ concat (map event_samples evs)),
          ws_sent := (ws_sent ?s1)(ws := ws_sent ?s1 ws @ concat (map event_envelopes evs))\<rparr>)"
      using Cons.prems(1) wf' by (intro Cons.IH) simp_all
    show ?thesis
      unfolding step rest
      by (auto simp: event_samples_segment [OF segment] event_envelopes_segment [OF segment]
          intro!: hstate.equality)
  next
    case short
    have step: "vad_events E ws client_uid (ev # evs) s = vad_events E ws client_uid evs s"
      using short by simp
    show ?thesis
      unfolding step skip
      by (auto simp: event_samples_short [OF short(3)] event_envelopes_short [OF short]
          intro!: hstate.equality)
  qed
qed

text \<open>
  A chunk that is truthy but has no length, such as the number 5, never reaches the
  detector: the log line raises \<^verbatim>\<open>TypeError\<close> and nothing is sent.
\<close>

lemma raw_audio_number_chunk:
  "client_contexts s client_uid = Some c \<Longrightarrow> data ''audio'' = Some (JInt 5) \<Longrightarrow>
   handle_raw_audio_data E ws client_uid data s
     = (Raise (Exn TypeError
         (''object of type '' @ [CHR 0x27] @ ''int'' @ [CHR 0x27] @ '' has no len()'')), s)"
  by (simp add: handle_raw_audio_data_def dict_get_default_def no_len_def)

text \<open>
  C6. For a raw-audio-data message with a non-empty chunk (its length is positive), from a
  registered client whose transport accepts sends, with \<open>evs\<close> the events the detector
  yields for the chunk (speech segments being whole 16-bit samples): the handler consumes
  the events in order; what it has sent to the sender is, event after event, the envelope
  \<^verbatim>\<open>{"type": "control", "text": "interrupt"}\<close> for a pause marker, nothing for a resume
  marker, and the envelope \<^verbatim>\<open>{"type": "control", "text": "mic-audio-end"}\<close> for a segment
  of more than 1024 bytes; and the sender's buffer has grown by the samples of exactly
  those segments, in order, sample \<open>i\<close> of a segment being the signed 16-bit number in its
  bytes \<open>2 * i\<close> and \<open>2 * i + 1\<close>. No other transport and no other buffer changes.
\<close>

theorem raw_audio_events:
  assumes ctx: "client_contexts s client_uid = Some c"
      and chunk: "py_len (dict_get_default data ''audio'' (JList [])) = Return n"
      and nonempty: "0 < n"
      and events: "detect_speech E (contexts s c) (dict_get_default data ''audio'' (JList []))
                     = (evs, failure)"
      and ok: "ws_fail s ws = None"
      and buf: "received_data_buffers s client_uid = Some b"
      and wf: "\<forall>ev \<in> set evs. 1024 < length ev \<longrightarrow> even (length ev)"
      and s': "s' = snd (handle_raw_audio_data E ws client_uid data s)"
  shows "ws_sent s' ws = ws_sent s ws @ concat (map event_envelopes evs)
       \<and> received_data_buffers s' client_uid = Some (b @ concat (map event_samples evs))
       \<and> (\<forall>w. w \<noteq> ws \<longrightarrow> ws_sent s' w = ws_sent s w)
       \<and> (\<forall>u. u \<noteq> client_uid \<longrightarrow> received_data_buffers s' u = received_data_buffers s u)
       \<and> event_envelopes ''<|PAUSE|>''
           = [JObj [(''type'', JStr ''control''), (''text'', JStr ''interrupt'')]]
       \<and> event_samples ''<|PAUSE|>'' = []
       \<and> event_envelopes ''<|RESUME|>'' = [] \<and> event_samples ''<|RESUME|>'' = []
       \<and> (seg \<noteq> ''<|PAUSE|>'' \<and> seg \<noteq> ''<|RESUME|>'' \<and> 1024 < length seg \<longrightarrow>
            event_envelopes seg
              = [JObj [(''type'', JStr ''control''), (''text'', JStr ''mic-audio-end'')]]
            \<and> event_samples seg = map (sample_at seg) [0..<length seg div 2]
            \<and> (\<forall>i < length seg div 2.
                  sample_at seg i
                    = real_of_int
                        (let u = int (of_char (seg ! (2 * i)))
                                 + 256 * int (of_char (seg ! (2 * i + 1)))
                         in if u < 32768 then u else u - 65536)))"
proof -
  have t: "truthy (dict_get_default data ''audio'' (JList []))"
    using chunk nonempty by (rule nonempty_truthy)
  have run: "handle_raw_audio_data E ws client_uid data s
      = (case failure of Some e \<Rightarrow> Raise e | None \<Rightarrow> Return (),
         s\<lparr>received_data_buffers :=
             (received_data_buffers s)(client_uid \<mapsto> b @ concat (map event_samples evs)),
           ws_sent := (ws_sent s)(ws := ws_sent s ws @ concat (map event_envelopes evs))\<rparr>)"
    using ctx t chunk events
    by (simp add: handle_raw_audio_data_def vad_events_run [OF ok buf wf] split: option.splits)
  have effect: "ws_sent s' ws = ws_sent s ws @ concat (map event_envelopes evs)
       \<and> received_data_buffers s' client_uid = Some (b @ concat (map event_samples evs))
       \<and> (\<forall>w. w \<noteq> ws \<longrightarrow> ws_sent s' w = ws_sent s w)
       \<and> (\<forall>u. u \<noteq> client_uid \<longrightarrow> received_data_buffers s' u = received_data_buffers s u)"
    unfolding s' run by simp
  have meaning: "event_envelopes ''<|PAUSE|>''
           = [JObj [(''type'', JStr ''control''), (''text'', JStr ''interrupt'')]]
       \<and> event_samples ''<|PAUSE|>'' = []
       \<and> event_envelopes ''<|RESUME|>'' = [] \<and> event_samples ''<|RESUME|>'' = []"
    by (simp add: event_envelopes_def event_samples_def)
  have segment: "event_envelopes seg
              = [JObj [(''type'', JStr ''control''), (''text'', JStr ''mic-audio-end'')]]
            \<and> event_samples seg = map (sample_at seg) [0..<length seg div 2]
            \<and> (\<forall>i < length seg div 2.
                  sample_at seg i
                    = real_of_int
                        (let u = int (of_char (seg ! (2 * i)))
                                 + 256 * int (of_char (seg ! (2 * i + 1)))
                         in if u < 32768 then u else u - 65536))"
    if "seg \<noteq> ''<|PAUSE|>''" "seg \<noteq> ''<|RESUME|>''" "1024 < length seg"
    using that
    by (simp add: event_envelopes_def event_samples_def segment_samples_def sample_at_def Let_def)
  from effect meaning segment show ?thesis by blast
qed

theorem raw_audio_events_witness:
  "client_contexts example_state ''A'' = Some 0
   \<and> py_len (dict_get_default [''type'' \<mapsto> JStr ''raw-audio-data'', ''audio'' \<mapsto> JList [JInt 1]]
               ''audio'' (JList [])) = Return 1
   \<and> ws_fail example_state 0 = None
   \<and> received_data_buffers example_state ''A'' = Some []
   \<and> detect_speech example_env (contexts example_state 0)
        (dict_get_default [''type'' \<mapsto> JStr ''raw-audio-data'', ''audio'' \<mapsto> JList [JInt 1]]
           ''audio'' (JList []))
       = ([''<|PAUSE|>'', ''<|RESUME|>'', replicate 1026 (CHR 0x01)], None)
   \<and> ws_sent (snd (handle_raw_audio_data example_env 0 ''A''
                     [''type'' \<mapsto> JStr ''raw-audio-data'', ''audio'' \<mapsto> JList [JInt 1]]
                     example_state)) 0
       = [JObj [(''type'', JStr ''control''), (''text'', JStr ''interrupt'')],
          JObj [(''type'', JStr ''control''), (''text'', JStr ''mic-audio-end'')]]
   \<and> received_data_buffers (snd (handle_raw_audio_data example_env 0 ''A''
                     [''type'' \<mapsto> JStr ''raw-audio-data'', ''audio'' \<mapsto> JList [JInt 1]]
                     example_state)) ''A''
       = Some (replicate 513 257)"
proof -
  let ?data = "[''type'' \<mapsto> JStr ''raw-audio-data'', ''audio'' \<mapsto> JList [JInt 1]]"
  let ?seg = "replicate 1026 (CHR 0x01)"
  let ?evs = "[''<|PAUSE|>'', ''<|RESUME|>'', ?seg]"
  have ctx: "client_contexts example_state ''A'' = Some 0"
    by (simp add: example_state_def)
  have chunk: "py_len (dict_get_default ?data ''audio'' (JList [])) = Return 1"
    by (simp add: dict_get_default_def)
  have nonempty: "0 < (1::nat)"
    by simp
  have events: "detect_speech example_env (contexts example_state 0)
                  (dict_get_default ?data ''audio'' (JList [])) = (?evs, None)"
    by (simp add: example_env_def)
  have ok: "ws_fail example_state 0 = None"
    by (simp add: example_state_def)
  have buf: "received_data_buffers example_state ''A'' = Some []"
    by (simp add: example_state_def)
  have wf: "\<forall>ev \<in> set ?evs. 1024 < length ev \<longrightarrow> even (length ev)"
    by simp
  have seg: "?seg \<noteq> ''<|PAUSE|>'' \<and> ?seg \<noteq> ''<|RESUME|>'' \<and> 1024 < length ?seg"
    by (auto dest: arg_cong [where f = length])
  have sent0: "ws_sent example_state 0 = []"
    by (simp add: example_state_def)
  have samples: "map (sample_at ?seg) [0..<length ?seg div 2] = replicate 513 257"
    by (rule nth_equalityI) (simp_all add: sample_at_def)
  note fact = raw_audio_events [OF ctx chunk nonempty events ok buf wf refl, where seg = ?seg]
  have marks: "concat (map event_envelopes ?evs)
      = [JObj [(''type'', JStr ''control''), (''text'', JStr ''interrupt'')],
         JObj [(''type'', JStr ''control''), (''text'', JStr ''mic-audio-end'')]]"
    using fact seg by simp
  have grown: "concat (map event_samples ?evs) = replicate 513 257"
    using fact seg samples by simp
  from fact ctx chunk ok buf events marks grown sent0 show ?thesis
    by simp
qed

section \<open>OrphiqAdapter: reporting failures\<close>




section \<open>Streaming a text generation\<close>

lemma stream_chunks_run:
  "ws_fail s ws = None \<Longrightarrow>
   stream_chunks ws chunks full_text s
     = (Return (full_text @ concat chunks),
        s\<lparr>ws_sent := (ws_sent s)(ws := ws_sent s ws @ map chunk_envelope chunks)\<rparr>)"
proof (induction chunks arbitrary: full_text s)
  case Nil
  then show ?case by simp
next
  case (Cons c cs)
  let ?s1 = "s\<lparr>ws_sent := (ws_sent s)(ws := ws_sent s ws @ [chunk_envelope c])\<rparr>"
  have step: "stream_chunks ws (c # cs) full_text s = stream_chunks ws cs (full_text @ c) ?s1"
    using Cons.prems by (simp add: send_text_ok)
  have rest: "stream_chunks ws cs (full_text @ c) ?s1
     = (Return ((full_text @ c) @ concat cs),
        ?s1\<lparr>ws_sent := (ws_sent ?s1)(ws := ws_sent ?s1 ws @ map chunk_envelope cs)\<rparr>)"
    using Cons.prems by (intro Cons.IH) simp
  show ?case
    unfolding step rest by (auto intro!: hstate.equality)
qed

lemma get_adapter_transport:
  "get_adapter E u s = (r, s1) \<Longrightarrow>
   ws_fail s1 = ws_fail s \<and> ws_sent s1 = ws_sent s \<and> backend_modes s1 = backend_modes s
   \<and> client_connections s1 = client_connections s"
  by (auto simp: get_adapter_def Let_def split: option.splits if_splits)

text \<open>
  C8, as the code has it. For a text-generation-request message on a transport that
  accepts sends, with a non-empty prompt:
  \<^item> when the adapter lookup succeeds and the generation runs to its end yielding \<open>chunks\<close>,
    the handler sends one envelope
    \<^verbatim>\<open>{"type": "text-generation-chunk", "text": chunk, "is_complete": false}\<close> per chunk, in
    the order produced, followed by exactly one envelope
    \<^verbatim>\<open>{"type": "text-generation-response", "text": full_text, "is_complete": true}\<close> whose
    text is the concatenation of the chunks in order;
  \<^item> when the generation raises \<open>e\<close> after yielding \<open>chunks\<close>, the chunk envelopes are sent in
    order and the error envelope of \<open>e\<close> takes the place of the terminal response;
  \<^item> when the adapter lookup raises \<open>e\<close>, only the error envelope of \<open>e\<close> is sent.
  When the prompt is missing or empty, only the error envelope "prompt is required" is
  sent.
\<close>

theorem text_generation_stream:
  assumes ok: "ws_fail s ws = None"
      and prompt: "prompt = dict_get_default data ''prompt'' (JStr [])"
      and ctxarg: "context = dict_get_default data ''context'' (JObj [])"
      and s': "s' = snd (handle_text_generation_request E ws client_uid data s)"
  shows "(truthy prompt \<and> get_adapter E client_uid s = (Return adapter, s1)
            \<and> generate_text E adapter prompt context s1 = (chunks, None) \<longrightarrow>
          ws_sent s' ws
            = ws_sent s ws
              @ map (\<lambda>text_chunk. JObj [(''type'', JStr ''text-generation-chunk''),
                                        (''text'', JStr text_chunk),
                                        (''is_complete'', JBool False)]) chunks
              @ [JObj [(''type'', JStr ''text-generation-response''),
                       (''text'', JStr (concat chunks)),
                       (''is_complete'', JBool True)]])
       \<and> (truthy prompt \<and> get_adapter E client_uid s = (Return adapter, s1)
            \<and> generate_text E adapter prompt context s1 = (chunks, Some e) \<longrightarrow>
          ws_sent s' ws
            = ws_sent s ws
              @ map (\<lambda>text_chunk. JObj [(''type'', JStr ''text-generation-chunk''),
                                        (''text'', JStr text_chunk),
                                        (''is_complete'', JBool False)]) chunks
              @ [JObj [(''type'', JStr ''error''), (''message'', JStr (exn_msg e))]])
       \<and> (truthy prompt \<and> get_adapter E client_uid s = (Raise e, s1) \<longrightarrow>
          ws_sent s' ws
            = ws_sent s ws @ [JObj [(''type'', JStr ''error''), (''message'', JStr (exn_msg e))]])
       \<and> (\<not> truthy prompt \<longrightarrow>
          ws_sent s' ws
            = ws_sent s ws
              @ [JObj [(''type'', JStr ''error''), (''message'', JStr ''prompt is required'')]])
       \<and> (data ''prompt'' = None \<or> data ''prompt'' = Some (JStr []) \<longrightarrow> \<not> truthy prompt)"
proof -
  let ?chunk = "\<lambda>text_chunk. JObj [(''type'', JStr ''text-generation-chunk''),
                                   (''text'', JStr text_chunk),
                                   (''is_complete'', JBool False)]"
  have env: "map chunk_envelope cs = map ?chunk cs" for cs
    by (simp add: chunk_envelope_def)
  have gen: "ws_sent s' ws
      = ws_sent s ws @ map ?chunk chunks
        @ [case failure of
             None \<Rightarrow> JObj [(''type'', JStr ''text-generation-response''),
                            (''text'', JStr (concat chunks)),
                            (''is_complete'', JBool True)]
           | Some e \<Rightarrow> JObj [(''type'', JStr ''error''), (''message'', JStr (exn_msg e))]]"
    if t: "truthy prompt" and a: "get_adapter E client_uid s = (Return adapter, s1)"
      and g: "generate_text E adapter prompt context s1 = (chunks, failure)" for failure
  proof -
    from get_adapter_transport [OF a] ok
    have ok1: "ws_fail s1 ws = None" and sent1: "ws_sent s1 = ws_sent s"
      by simp_all
    show ?thesis
      using t a g unfolding s' handle_text_generation_request_def prompt [symmetric]
        ctxarg [symmetric] Let_def
      by (cases failure)
         (simp_all add: stream_chunks_run [OF ok1] send_text_ok ok1 sent1 env
            response_envelope_def error_envelope_def)
  qed
  have lookup: "ws_sent s' ws
      = ws_sent s ws @ [JObj [(''type'', JStr ''error''), (''message'', JStr (exn_msg e))]]"
    if t: "truthy prompt" and a: "get_adapter E client_uid s = (Raise e, s1)"
  proof -
    from get_adapter_transport [OF a] ok
    have ok1: "ws_fail s1 ws = None" and sent1: "ws_sent s1 = ws_sent s"
      by simp_all
    show ?thesis
      using t a unfolding s' handle_text_generation_request_def prompt [symmetric] Let_def
      by (simp add: send_text_ok ok1 sent1 error_envelope_def)
  qed
  have none: "ws_sent s' ws
      = ws_sent s ws
        @ [JObj [(''type'', JStr ''error''), (''message'', JStr ''prompt is required'')]]"
    if "\<not> truthy prompt"
    using that ok unfolding s' handle_text_generation_request_def prompt [symmetric] Let_def
    by (simp add: send_text_ok error_envelope_def)
  have empty: "\<not> truthy prompt" if "data ''prompt'' = None \<or> data ''prompt'' = Some (JStr [])"
    using that unfolding prompt by (auto simp: dict_get_default_def)
  from gen [where failure = None] gen [where failure = "Some e"] lookup none empty
  show ?thesis by simp
qed

theorem text_generation_stream_witness:
  "ws_fail example_state 0 = None
   \<and> truthy (JStr ''Say hello'')
   \<and> fst (get_adapter example_env ''A'' example_state) = Return 0
   \<and> generate_text example_env 0 (JStr ''Say hello'') (JObj [])
        (snd (get_adapter example_env ''A'' example_state))
       = ([''Hello, '', ''world!''], None)
   \<and> ws_sent (snd (handle_text_generation_request example_env 0 ''A''
                     [''type'' \<mapsto> JStr ''text-generation-request'', ''prompt'' \<mapsto> JStr ''Say hello'']
                     example_state)) 0
       = [JObj [(''type'', JStr ''text-generation-chunk''), (''text'', JStr ''Hello, ''),
                (''is_complete'', JBool False)],
          JObj [(''type'', JStr ''text-generation-chunk''), (''text'', JStr ''world!''),
                (''is_complete'', JBool False)],
          JObj [(''type'', JStr ''text-generation-response''), (''text'', JStr ''Hello, world!''),
                (''is_complete'', JBool True)]]"
proof -
  let ?data = "[''type'' \<mapsto> JStr ''text-generation-request'', ''prompt'' \<mapsto> JStr ''Say hello'']"
  have ok: "ws_fail example_state 0 = None"
    by (simp add: example_state_def)
  have prompt: "JStr ''Say hello'' = dict_get_default ?data ''prompt'' (JStr [])"
    by (simp add: dict_get_default_def)
  have ctxarg: "JObj [] = dict_get_default ?data ''context'' (JObj [])"
    by (simp add: dict_get_default_def)
  have t: "truthy (JStr ''Say hello'')"
    by simp
  obtain s1 where a: "get_adapter example_env ''A'' example_state = (Return 0, s1)"
    by (simp add: get_adapter_def example_state_def)
  have g: "generate_text example_env 0 (JStr ''Say hello'') (JObj []) s1
             = ([''Hello, '', ''world!''], None)"
    by (simp add: generate_text_def example_env_def)
  have sent0: "ws_sent example_state 0 = []"
    by (simp add: example_state_def)
  from text_generation_stream [OF ok prompt ctxarg refl, where E = example_env
      and client_uid = "''A''" and adapter = 0 and ?s1.0 = s1
      and chunks = "[''Hello, '', ''world!'']"] t a g sent0 ok
  show ?thesis by simp
qed

text \<open>
  With a non-empty prompt and an agent that fails after its first sentence, the handler
  sends the chunk envelope of that sentence and then an error envelope: no terminal
  \<^verbatim>\<open>text-generation-response\<close> follows the chunk.
\<close>

theorem text_generation_failure:
  "ws_sent (snd (handle_text_generation_request failing_env 0 ''A''
                   [''type'' \<mapsto> JStr ''text-generation-request'', ''prompt'' \<mapsto> JStr ''Say hello'']
                   example_state)) 0
     = [JObj [(''type'', JStr ''text-generation-chunk''), (''text'', JStr ''Hello, ''),
              (''is_complete'', JBool False)],
        JObj [(''type'', JStr ''error''), (''message'', JStr ''agent failed'')]]"
  by (simp add: handle_text_generation_request_def dict_get_default_def get_adapter_def
      generate_text_def failing_env_def example_env_def example_state_def new_adapter_def
      send_text_def chunk_envelope_def error_envelope_def)

section \<open>An expression command\<close>

lemma send_text_fields:
  "send_text w p s = (r, s') \<Longrightarrow>
   backend_modes s' = backend_modes s \<and> client_adapters s' = client_adapters s
   \<and> adapters s' = adapters s \<and> contexts s' = contexts s \<and> ws_fail s' = ws_fail s"
  by (auto simp: send_text_def split: option.splits)

lemma except_send_error_fields:
  assumes "except_send_error ws x = (r, s')"
  shows "backend_modes s' = backend_modes (snd x) \<and> client_adapters s' = client_adapters (snd x)
   \<and> adapters s' = adapters (snd x) \<and> contexts s' = contexts (snd x)
   \<and> ws_fail s' = ws_fail (snd x)"
  using assms
  by (cases x) (auto simp: except_send_error_def split: outcome.splits dest: send_text_fields)

lemma get_adapter_returns:
  "get_adapter E u s = (Return a, s1) \<Longrightarrow> client_adapters s1 u = Some a"
  by (auto simp: get_adapter_def Let_def split: option.splits if_splits)

text \<open>
  C9. For a registered client whose adapter lookup succeeds and whose notification goes
  through, handling \<^verbatim>\<open>expression-command\<close> with expression id \<open>e\<close> (whatever the duration,
  so also duration 0) leaves the recorded backend modes unchanged, so that a following
  \<^verbatim>\<open>get-backend-mode\<close> answers with the mode it would have answered before; the client
  still holds the adapter the lookup returned, and \<^verbatim>\<open>get_character_state\<close> on that adapter
  then shows \<^verbatim>\<open>current_expression\<close> equal to \<open>e\<close>.
\<close>

theorem expression_command_effect:
  assumes eid: "data ''expression_id'' = Some e"
      and given: "e \<noteq> JNull"
      and lookup: "get_adapter E client_uid s = (Return a, s1)"
      and acts: "actions_to_dict E [e] = Return actions"
      and notify: "case client_connections s (a_client (adapters s1 a)) of
                     None \<Rightarrow> True | Some w \<Rightarrow> ws_fail s w = None"
      and s': "s' = snd (handle_expression_command E ws client_uid data s)"
  shows "backend_modes s' = backend_modes s
       \<and> (ws_fail s ws' = None \<longrightarrow>
            ws_sent (snd (handle_get_backend_mode E ws' client_uid data' s')) ws'
              = ws_sent s' ws'
                  @ [JObj [(''type'', JStr ''backend-mode''),
                           (''mode'', case backend_modes s client_uid of
                                        None \<Rightarrow> JStr ''orphiq'' | Some m \<Rightarrow> m)]])
       \<and> client_adapters s' client_uid = Some a
       \<and> current_expression (adapters s' a) = e
       \<and> dict_field ''current_expression'' (get_character_state a s') = Some e"
proof -
  from get_adapter_transport [OF lookup]
  have t1: "ws_fail s1 = ws_fail s" "client_connections s1 = client_connections s"
    "backend_modes s1 = backend_modes s"
    by simp_all
  let ?payload = "expression_payload E (contexts s1 (a_context (adapters s1 a))) e actions"
  let ?duration = "dict_get_default data ''duration'' (JInt 0)"
  let ?priority = "dict_get_default data ''priority'' (JInt 0)"
  let ?result = "JObj [(''status'', JStr ''success''), (''expression_id'', e),
                       (''duration'', ?duration), (''priority'', ?priority)]"
  obtain s2 where sent: "websocket_send (a_client (adapters s1 a)) ?payload s1 = (Return (), s2)"
    using notify t1
    by (auto simp: websocket_send_def send_text_ok split: option.splits)
  have s2: "backend_modes s2 = backend_modes s" "client_adapters s2 = client_adapters s1"
    "adapters s2 = adapters s1" "ws_fail s2 = ws_fail s"
    using sent t1 by (auto simp: websocket_send_def send_text_def split: option.splits)
  let ?s3 = "s2\<lparr>adapters := (adapters s2)(a := (adapters s2 a)\<lparr>current_expression := e\<rparr>)\<rparr>"
  have trig: "trigger_expression E a e ?duration ?priority s1 = (Return ?result, ?s3)"
    by (simp add: trigger_expression_def trigger_expression_body_def acts sent)
  obtain r where run: "handle_expression_command E ws client_uid data s = (r, s')"
    using s' by (metis prod.collapse)
  obtain r4 s4 where ack: "send_text ws
        (JObj [(''type'', JStr ''expression-ack''), (''expression_id'', e),
               (''result'', ?result)]) ?s3 = (r4, s4)"
    by (metis prod.collapse)
  have body: "except_send_error ws (r4, s4) = (r, s')"
    using run eid given
    by (simp add: handle_expression_command_def dict_get_def lookup trig ack)
  from send_text_fields [OF ack] except_send_error_fields [OF body]
  have fields: "backend_modes s' = backend_modes ?s3" "client_adapters s' = client_adapters ?s3"
    "adapters s' = adapters ?s3" "ws_fail s' = ws_fail ?s3"
    by simp_all
  have modes: "backend_modes s' = backend_modes s"
    using fields s2 by simp
  have held: "client_adapters s' client_uid = Some a"
    using fields s2 get_adapter_returns [OF lookup] by simp
  have expr: "current_expression (adapters s' a) = e"
    using fields by simp
  have reply: "ws_sent (snd (handle_get_backend_mode E ws' client_uid data' s')) ws'
              = ws_sent s' ws'
                  @ [JObj [(''type'', JStr ''backend-mode''),
                           (''mode'', case backend_modes s client_uid of
                                        None \<Rightarrow> JStr ''orphiq'' | Some m \<Rightarrow> m)]]"
    if "ws_fail s ws' = None"
  proof -
    have "ws_fail s' ws' = None"
      using that fields s2 by simp
    then show ?thesis
      by (simp add: handle_get_backend_mode_def send_text_ok modes)
  qed
  from modes reply held expr show ?thesis
    by (simp add: get_character_state_def Let_def)
qed

theorem expression_command_effect_witness:
  "[''type'' \<mapsto> JStr ''expression-command'', ''expression_id'' \<mapsto> JInt 3, ''duration'' \<mapsto> JInt 0]
     ''expression_id'' = Some (JInt 3)
   \<and> fst (get_adapter example_env ''A'' example_state) = Return 0
   \<and> actions_to_dict example_env [JInt 3] = Return (JObj [(''expressions'', JList [JInt 3])])
   \<and> backend_modes (snd (handle_expression_command example_env 0 ''A''
        [''type'' \<mapsto> JStr ''expression-command'', ''expression_id'' \<mapsto> JInt 3, ''duration'' \<mapsto> JInt 0]
        example_state)) = backend_modes example_state
   \<and> dict_field ''current_expression''
        (get_character_state 0 (snd (handle_expression_command example_env 0 ''A''
        [''type'' \<mapsto> JStr ''expression-command'', ''expression_id'' \<mapsto> JInt 3, ''duration'' \<mapsto> JInt 0]
        example_state))) = Some (JInt 3)"
proof -
  let ?data = "[''type'' \<mapsto> JStr ''expression-command'', ''expression_id'' \<mapsto> JInt 3,
                ''duration'' \<mapsto> JInt 0]"
  have eid: "?data ''expression_id'' = Some (JInt 3)"
    by simp
  have given: "JInt 3 \<noteq> JNull"
    by simp
  obtain s1 where lookup: "get_adapter example_env ''A'' example_state = (Return 0, s1)"
    and client: "a_client (adapters s1 0) = ''A''"
    by (simp add: get_adapter_def example_state_def new_adapter_def)
  have acts: "actions_to_dict example_env [JInt 3] = Return (JObj [(''expressions'', JList [JInt 3])])"
    by (simp add: example_env_def)
  have notify: "case client_connections example_state (a_client (adapters s1 0)) of
                  None \<Rightarrow> True | Some w \<Rightarrow> ws_fail example_state w = None"
    by (simp add: client example_state_def)
  from expression_command_effect [where data = ?data and e = "JInt 3" and ws = 0,
      OF eid given lookup acts notify refl] eid lookup acts
  show ?thesis by simp
qed

end
